theory Spec2Isabelle
  imports Main
begin

section \<open>Python values and exceptions\<close>

text \<open>
  The exceptions the modelled code raises or lets through. Python's \<open>except Exception\<close>
  catches every instance of a subclass of \<open>Exception\<close>; \<open>asyncio.CancelledError\<close>,
  \<open>KeyboardInterrupt\<close> and \<open>SystemExit\<close> derive from \<open>BaseException\<close> only and pass
  through such a handler. \<open>OtherException\<close> stands for any other instance of an
  \<open>Exception\<close> subclass (\<open>ImportError\<close>, \<open>ConnectionError\<close>, ...), with its \<open>str()\<close>.
\<close>

datatype py_exception =
    IndexError
  | ValueError string
  | OtherException string
  | CancelledError
  | KeyboardInterrupt
  | SystemExit

fun isinstance_Exception :: "py_exception \<Rightarrow> bool" where
  "isinstance_Exception CancelledError = False"
| "isinstance_Exception KeyboardInterrupt = False"
| "isinstance_Exception SystemExit = False"
| "isinstance_Exception _ = True"

text \<open>\<open>str(exc)\<close>: the message of the exception (empty where the class carries none).\<close>

fun str_exc :: "py_exception \<Rightarrow> string" where
  "str_exc IndexError = ''list index out of range''"
| "str_exc (ValueError m) = m"
| "str_exc (OtherException m) = m"
| "str_exc CancelledError = []"
| "str_exc KeyboardInterrupt = []"
| "str_exc SystemExit = []"

text \<open>A configuration value: the fields of \<open>Context\<close> hold a \<open>str\<close> or an \<open>int\<close>.\<close>

datatype pyval = PStr string | PInt int

section \<open>prompts.py and context.py: the runtime configuration\<close>

definition SYSTEM_PROMPT :: string where
  "SYSTEM_PROMPT =
     ''You are Cerebro, a personal assistant with access to a local knowledge '' @
     ''management system called '' @ [CHR 0x22] @ ''brain'' @ [CHR 0x22] @
     ''. You can read and write todos, notes, projects, and daily '' @
     ''notes through your tools. Help the user stay organised, capture ideas, plan work, and reflect '' @
     ''on their progress. Be concise and direct.'' @ [CHR 0x0A, CHR 0x0A] @
     ''System time: {system_time}''"

text \<open>
  The dataclass \<open>Context\<close> and its three declared fields, in declaration order.
  \<open>fields(self)\<close> is the list \<open>dataclass_fields\<close>; every field is an \<open>__init__\<close> parameter.
\<close>

record Context =
  system_prompt :: pyval
  model :: pyval
  max_search_results :: pyval

datatype field = system_prompt_field | model_field | max_search_results_field

fun f_name :: "field \<Rightarrow> string" where
  "f_name system_prompt_field = ''system_prompt''"
| "f_name model_field = ''model''"
| "f_name max_search_results_field = ''max_search_results''"

fun f_default :: "field \<Rightarrow> pyval" where
  "f_default system_prompt_field = PStr SYSTEM_PROMPT"
| "f_default model_field = PStr ''anthropic/claude-haiku-4-5-20251001''"
| "f_default max_search_results_field = PInt 10"

fun f_init :: "field \<Rightarrow> bool" where
  "f_init _ = True"

definition dataclass_fields :: "field list" where
  "dataclass_fields = [system_prompt_field, model_field, max_search_results_field]"

fun getattr :: "Context \<Rightarrow> field \<Rightarrow> pyval" where
  "getattr self system_prompt_field = system_prompt self"
| "getattr self model_field = model self"
| "getattr self max_search_results_field = max_search_results self"

fun setattr :: "Context \<Rightarrow> field \<Rightarrow> pyval \<Rightarrow> Context" where
  "setattr self system_prompt_field v = self\<lparr>system_prompt := v\<rparr>"
| "setattr self model_field v = self\<lparr>model := v\<rparr>"
| "setattr self max_search_results_field v = self\<lparr>max_search_results := v\<rparr>"

text \<open>\<open>str.upper()\<close> on the ASCII letters of a field name.\<close>

definition upper_char :: "char \<Rightarrow> char" where
  "upper_char c =
     (case map_of (zip ''abcdefghijklmnopqrstuvwxyz'' ''ABCDEFGHIJKLMNOPQRSTUVWXYZ'') c of
        Some u \<Rightarrow> u
      | None \<Rightarrow> c)"

definition upper :: "string \<Rightarrow> string" where
  "upper s = map upper_char s"

text \<open>
  \<open>os.environ.get(key, default)\<close>: the environment maps names to strings, so a value
  taken from it is a \<open>str\<close> whatever the field's declared type.
\<close>

definition environ_get :: "(string \<rightharpoonup> string) \<Rightarrow> string \<Rightarrow> pyval \<Rightarrow> pyval" where
  "environ_get environ key dflt = (case environ key of Some v \<Rightarrow> PStr v | None \<Rightarrow> dflt)"

definition post_init_field :: "(string \<rightharpoonup> string) \<Rightarrow> Context \<Rightarrow> field \<Rightarrow> Context" where
  "post_init_field environ self f =
     (if \<not> f_init f then self
      else if getattr self f = f_default f
           then setattr self f (environ_get environ (upper (f_name f)) (f_default f))
           else self)"

definition post_init :: "(string \<rightharpoonup> string) \<Rightarrow> Context \<Rightarrow> Context" where
  "post_init environ self = foldl (post_init_field environ) self dataclass_fields"

text \<open>
  The generated \<open>__init__\<close>: each field takes the keyword argument passed for it, or its
  default; then \<open>__post_init__\<close> runs. \<open>kwargs f = None\<close> means no argument for \<open>f\<close>.
\<close>

definition init_value :: "(field \<rightharpoonup> pyval) \<Rightarrow> field \<Rightarrow> pyval" where
  "init_value kwargs f = (case kwargs f of Some v \<Rightarrow> v | None \<Rightarrow> f_default f)"

definition Context_init :: "(string \<rightharpoonup> string) \<Rightarrow> (field \<rightharpoonup> pyval) \<Rightarrow> Context" where
  "Context_init environ kwargs =
     post_init environ
       \<lparr>system_prompt = init_value kwargs system_prompt_field,
        model = init_value kwargs model_field,
        max_search_results = init_value kwargs max_search_results_field\<rparr>"

section \<open>state.py: the agent state\<close>

record tool_call =
  tc_name :: string
  tc_args :: string
  tc_id :: "string option"

text \<open>The fields of an \<open>AIMessage\<close> that the graph reads or writes.\<close>

record ai_message =
  msg_id :: "string option"
  content :: string
  tool_calls :: "tool_call list"

text \<open>
  \<open>AnyMessage\<close>: the message classes of the history. \<open>AIMessage\<close> covers its subclasses
  (\<open>isinstance\<close> accepts them); \<open>ToolMessage\<close> carries its content and tool-call id.
\<close>

datatype message =
    AIMessage ai_message
  | HumanMessage string
  | SystemMessage string
  | ToolMessage string string

fun type_name :: "message \<Rightarrow> string" where
  "type_name (AIMessage _) = ''AIMessage''"
| "type_name (HumanMessage _) = ''HumanMessage''"
| "type_name (SystemMessage _) = ''SystemMessage''"
| "type_name (ToolMessage _ _) = ''ToolMessage''"

fun is_AIMessage :: "message \<Rightarrow> bool" where
  "is_AIMessage (AIMessage _) = True"
| "is_AIMessage _ = False"

record State =
  messages :: "message list"
  is_last_step :: bool

section \<open>graph.py: the two nodes of the agent graph\<close>

text \<open>
  The collaborators of \<open>call_model\<close>: \<open>load_chat_model(...).bind_tools(tools)\<close> gives the
  model, whose \<open>ainvoke\<close> maps the prompt to a reply or raises; \<open>format_prompt\<close> is
  \<open>str.format(system_time=...)\<close> on the configured system prompt; \<open>now_iso\<close> is
  \<open>datetime.now(tz=UTC).isoformat()\<close>.
\<close>

record runtime =
  rt_context :: Context
  load_chat_model :: "pyval \<Rightarrow> message list \<Rightarrow> py_exception + ai_message"
  format_prompt :: "pyval \<Rightarrow> string \<Rightarrow> string"
  now_iso :: string

definition budget_message :: string where
  "budget_message =
     ''Sorry, I could not find an answer to your question in the specified number of steps.''"

text \<open>The reply of \<open>model.ainvoke\<close> to the system message followed by the history.\<close>

definition model_reply :: "State \<Rightarrow> runtime \<Rightarrow> py_exception + ai_message" where
  "model_reply state rt =
     (let model = load_chat_model rt (model (rt_context rt));
          system_message = format_prompt rt (system_prompt (rt_context rt)) (now_iso rt)
      in model (SystemMessage system_message # messages state))"

definition call_model :: "State \<Rightarrow> runtime \<Rightarrow> py_exception + message list" where
  "call_model state rt =
     (case model_reply state rt of
        Inl e \<Rightarrow> Inl e
      | Inr response \<Rightarrow>
          if is_last_step state \<and> tool_calls response \<noteq> []
          then Inr [AIMessage \<lparr>msg_id = msg_id response,
                               content = budget_message,
                               tool_calls = []\<rparr>]
          else Inr [AIMessage response])"

definition route_model_output :: "State \<Rightarrow> py_exception + string" where
  "route_model_output state =
     (case messages state of
        [] \<Rightarrow> Inl IndexError
      | _ # _ \<Rightarrow>
          (case last (messages state) of
             AIMessage m \<Rightarrow> if tool_calls m = [] then Inr ''__end__'' else Inr ''tools''
           | other \<Rightarrow>
               Inl (ValueError (''Expected AIMessage in output edges, but got '' @ type_name other))))"

section \<open>chat.py: strings, dates and the thread identifier\<close>

text \<open>
  Strings are byte lists; the three non-ASCII characters of the source are written as
  their UTF-8 bytes. \<open>str_nat\<close> is \<open>str()\<close> of a non-negative \<open>int\<close>.
\<close>

definition digit_char :: "nat \<Rightarrow> char" where
  "digit_char n = ''0123456789'' ! (n mod 10)"

fun str_nat :: "nat \<Rightarrow> string" where
  "str_nat n = (if n < 10 then [digit_char n] else str_nat (n div 10) @ [digit_char n])"

declare str_nat.simps [simp del]

definition pad2 :: "nat \<Rightarrow> string" where
  "pad2 n = (if n < 10 then CHR ''0'' # str_nat n else str_nat n)"

definition startswith :: "string \<Rightarrow> string \<Rightarrow> bool" where
  "startswith s p = (take (length p) s = p)"

definition isspace :: "char \<Rightarrow> bool" where
  "isspace c = (c \<in> set [CHR 0x20, CHR 0x09, CHR 0x0A, CHR 0x0B, CHR 0x0C, CHR 0x0D,
                          CHR 0x1C, CHR 0x1D, CHR 0x1E, CHR 0x1F])"

definition strip :: "string \<Rightarrow> string" where
  "strip s = rev (dropWhile isspace (rev (dropWhile isspace s)))"

fun join :: "string \<Rightarrow> string list \<Rightarrow> string" where
  "join sep [] = []"
| "join sep [x] = x"
| "join sep (x # y # ys) = x @ sep @ join sep (y # ys)"

fun contains :: "string \<Rightarrow> string \<Rightarrow> bool" where
  "contains [] p = (p = [])"
| "contains (c # cs) p = (startswith (c # cs) p \<or> contains cs p)"

text \<open>
  \<open>datetime.now(timezone.utc)\<close>, as its calendar fields. The two formats are
  \<open>strftime('%Y-%m-%d')\<close> and \<open>strftime('%Y%m%d-%H%M%S')\<close> (years from 1000 on, where
  \<open>%Y\<close> has four digits).
\<close>

record datetime =
  year :: nat
  month :: nat
  day :: nat
  hour :: nat
  minute :: nat
  second :: nat

definition strftime_date :: "datetime \<Rightarrow> string" where
  "strftime_date t = str_nat (year t) @ ''-'' @ pad2 (month t) @ ''-'' @ pad2 (day t)"

definition strftime_stamp :: "datetime \<Rightarrow> string" where
  "strftime_stamp t =
     str_nat (year t) @ pad2 (month t) @ pad2 (day t) @ ''-'' @
     pad2 (hour t) @ pad2 (minute t) @ pad2 (second t)"

text \<open>
  \<open>_daily_thread_id\<close>: \<open>thread_file\<close> is the content of \<open>last_thread.txt\<close>, \<open>None\<close> when
  the file does not exist.
\<close>

definition daily_thread_id :: "datetime \<Rightarrow> string option \<Rightarrow> string" where
  "daily_thread_id now thread_file =
     (let today = strftime_date now;
          daily_id = ''chat-'' @ today
      in case thread_file of
           Some text \<Rightarrow>
             (let saved = strip text
              in if startswith saved (''chat-'' @ today) then saved else daily_id)
         | None \<Rightarrow> daily_id)"

definition save_thread_id :: "string \<Rightarrow> string option" where
  "save_thread_id thread_id = Some thread_id"

section \<open>chat.py: the application, its tools and notifications\<close>

datatype tool = web_search | McpTool string

fun tool_name :: "tool \<Rightarrow> string" where
  "tool_name web_search = ''web_search''"
| "tool_name (McpTool n) = n"

definition BASE_TOOLS :: "tool list" where
  "BASE_TOOLS = [web_search]"

text \<open>
  \<open>create_graph\<close> does no lookup by name itself: it hands the tool list to
  \<open>bind_tools\<close> and to \<open>ToolNode(tools)\<close> (graph.py, lines 39 and 76). \<open>ToolNode\<close> is
  LangGraph's, not the repository's; it registers the tools in list order in a table keyed
  by name (\<open>tools_by_name[tool.name] = tool\<close>), so of two tools with one name the later
  one stays, and a requested tool call is resolved through that table.
\<close>

definition tools_by_name :: "tool list \<Rightarrow> string \<rightharpoonup> tool" where
  "tools_by_name tools = foldl (\<lambda>table t. table(tool_name t \<mapsto> t)) Map.empty tools"

record notification =
  n_message :: string
  severity :: string
  timeout :: nat

text \<open>
  The fields of \<open>ChatApp\<close>: \<open>graph\<close> is \<open>None\<close> until \<open>create_graph(tools, ...)\<close> has
  compiled the graph over the tool list it is given; \<open>notifications\<close> collects the calls
  of \<open>notify\<close> in order.
\<close>

record ChatApp =
  thread_id :: string
  sub_title :: string
  mcp_client :: bool
  graph :: "tool list option"
  notifications :: "notification list"

definition notify :: "ChatApp \<Rightarrow> string \<Rightarrow> string \<Rightarrow> nat \<Rightarrow> ChatApp" where
  "notify self msg sev t =
     self\<lparr>notifications := notifications self @ [\<lparr>n_message = msg, severity = sev, timeout = t\<rparr>]\<rparr>"

definition action_new_thread :: "ChatApp \<Rightarrow> datetime \<Rightarrow> string \<Rightarrow> ChatApp" where
  "action_new_thread self now uuid_hex =
     (let tid = ''chat-'' @ strftime_stamp now @ ''-'' @ take 6 uuid_hex;
          self1 = self\<lparr>thread_id := tid\<rparr>;
          self2 = self1\<lparr>sub_title := ''thread: '' @ tid\<rparr>
      in notify self2 ''New thread started'' ''information'' 2)"







section \<open>chat.py: the message widget and the streaming of a reply\<close>

text \<open>
  \<open>MessageWidget\<close>: \<open>w_content\<close> and \<open>w_tool_calls\<close> are the attributes \<open>_content\<close> and
  \<open>_tool_calls\<close>; \<open>renderable\<close> is the markup last handed to \<open>Static.update\<close> (or to the
  constructor of \<open>Static\<close>), that is, what the widget shows.
\<close>

record MessageWidget =
  role :: string
  w_content :: string
  w_tool_calls :: "string list"
  renderable :: string

definition tool_hint :: "string \<Rightarrow> string" where
  "tool_hint t = ''[dim]  '' @ [CHR 0xE2, CHR 0x86, CHR 0xB3] @ '' '' @ t @ ''[/dim]''"

definition thinking :: string where
  "thinking = ''[dim]thinking'' @ [CHR 0xE2, CHR 0x80, CHR 0xA6] @ ''[/dim]''"

definition header :: "string \<Rightarrow> string" where
  "header r =
     (if r = ''user'' then ''[bold #5bc0f8]You[/bold #5bc0f8]''
      else ''[bold #7bc67e]Cerebro[/bold #7bc67e]'')"

definition build_markup :: "MessageWidget \<Rightarrow> bool \<Rightarrow> string" where
  "build_markup self streaming =
     (let parts0 = [header (role self), []];
          parts1 = parts0 @ map tool_hint (w_tool_calls self);
          parts2 = (if w_tool_calls self \<noteq> [] then parts1 @ [[]] else parts1);
          parts3 = (if w_content self \<noteq> [] then parts2 @ [w_content self]
                    else if streaming then parts2 @ [thinking]
                    else parts2)
      in join [CHR 0x0A] parts3)"

definition MessageWidget_init :: "string \<Rightarrow> string \<Rightarrow> MessageWidget" where
  "MessageWidget_init r c =
     (let self = \<lparr>role = r, w_content = c, w_tool_calls = [], renderable = []\<rparr>
      in self\<lparr>renderable := build_markup self False\<rparr>)"

definition set_content :: "MessageWidget \<Rightarrow> string \<Rightarrow> string list option \<Rightarrow> bool \<Rightarrow> MessageWidget" where
  "set_content self c tcs streaming =
     (let self1 = self\<lparr>w_content := c\<rparr>;
          self2 = (case tcs of Some l \<Rightarrow> self1\<lparr>w_tool_calls := l\<rparr> | None \<Rightarrow> self1)
      in self2\<lparr>renderable := build_markup self2 streaming\<rparr>)"

text \<open>
  The events of \<open>astream_events\<close> that the loop looks at. \<open>on_tool_start\<close> carries
  \<open>event.get("name")\<close>; \<open>on_chat_model_stream\<close> carries the content of the chunk, \<open>None\<close>
  when the event has no (truthy) chunk. A content block is a dict with its \<open>"type"\<close> and
  \<open>"text"\<close> entries, or something else.
\<close>

datatype block = DictBlock "string option" "string option" | NonDictBlock

datatype chunk_content = ContentStr string | ContentList "block list" | ContentOther

datatype event =
    on_tool_start "string option"
  | on_chat_model_stream "chunk_content option"
  | other_event

fun block_text :: "block \<Rightarrow> string" where
  "block_text (DictBlock ty txt) =
     (if ty = Some ''text'' then (case txt of Some t \<Rightarrow> t | None \<Rightarrow> []) else [])"
| "block_text NonDictBlock = []"

fun added_text :: "chunk_content \<Rightarrow> string" where
  "added_text (ContentStr s) = s"
| "added_text (ContentList bs) = concat (map block_text bs)"
| "added_text ContentOther = []"

text \<open>The locals of \<open>_send_message\<close> that the loop over the events updates.\<close>

record run =
  full_text :: string
  tool_list :: "string list"
  ai_widget :: MessageWidget

fun handle_event :: "run \<Rightarrow> event \<Rightarrow> run" where
  "handle_event r (on_tool_start name) =
     (let tn = (case name of Some n \<Rightarrow> n | None \<Rightarrow> ''tool'');
          tl = (if tn \<notin> set (tool_list r) then tool_list r @ [tn] else tool_list r)
      in r\<lparr>tool_list := tl, ai_widget := set_content (ai_widget r) (full_text r) (Some tl) True\<rparr>)"
| "handle_event r (on_chat_model_stream None) = r"
| "handle_event r (on_chat_model_stream (Some c)) =
     (let added = added_text c
      in if added \<noteq> []
         then (let ft = full_text r @ added
               in r\<lparr>full_text := ft,
                    ai_widget := set_content (ai_widget r) ft (Some (tool_list r)) True\<rparr>)
         else r)"
| "handle_event r other_event = r"

definition start_run :: run where
  "start_run =
     \<lparr>full_text = [], tool_list = [],
      ai_widget = set_content (MessageWidget_init ''assistant'' []) [] None True\<rparr>"

definition stream_events :: "event list \<Rightarrow> run" where
  "stream_events events = foldl handle_event start_run events"

definition error_markup :: "py_exception \<Rightarrow> string \<Rightarrow> string" where
  "error_markup exc tb =
     ''[red]Error:[/red] '' @ str_exc exc @ [CHR 0x0A, CHR 0x0A] @ ''[dim]'' @ tb @ ''[/dim]''"

text \<open>
  \<open>_send_message\<close>: the stream yields \<open>events\<close> and then ends, or raises \<open>failure\<close> (the
  exception and the text of \<open>traceback.format_exc()\<close> for it) after them. The result is
  the two widgets mounted, the content of \<open>last_thread.txt\<close> written by the \<open>finally\<close>
  block, and the exception that leaves the function, if any.
\<close>

record send_result =
  user_widget :: MessageWidget
  reply_widget :: MessageWidget
  thread_file :: "string option"
  propagated :: "py_exception option"

definition send_message ::
  "ChatApp \<Rightarrow> string \<Rightarrow> event list \<Rightarrow> (py_exception \<times> string) option \<Rightarrow> send_result" where
  "send_message self c events failure =
     (let r = stream_events events;
          done = (case failure of
                    None \<Rightarrow>
                      (set_content (ai_widget r)
                         (if full_text r \<noteq> [] then full_text r else ''(no response)'')
                         (Some (tool_list r)) False,
                       None)
                  | Some (exc, tb) \<Rightarrow>
                      if isinstance_Exception exc
                      then (set_content (ai_widget r) (error_markup exc tb) None False, None)
                      else (ai_widget r, Some exc))
      in \<lparr>user_widget = MessageWidget_init ''user'' c,
          reply_widget = fst done,
          thread_file = save_thread_id (thread_id self),
          propagated = snd done\<rparr>)"

section \<open>Concrete inputs\<close>

text \<open>
  A reply that requests one tool call, a runtime whose model always gives that reply, and
  states on their last step or in the middle of a conversation.
\<close>

definition example_reply :: ai_message where
  "example_reply =
     \<lparr>msg_id = Some ''run-42'', content = [],
      tool_calls = [\<lparr>tc_name = ''web_search'', tc_args = ''query=weather'', tc_id = Some ''call_1''\<rparr>]\<rparr>"

definition example_runtime :: runtime where
  "example_runtime =
     \<lparr>rt_context = \<lparr>system_prompt = PStr SYSTEM_PROMPT,
                     model = PStr ''anthropic/claude-haiku-4-5-20251001'',
                     max_search_results = PInt 10\<rparr>,
      load_chat_model = (\<lambda>name prompt. Inr example_reply),
      format_prompt = (\<lambda>template t. case template of PStr p \<Rightarrow> p @ t | PInt _ \<Rightarrow> t),
      now_iso = ''2026-11-04T09:30:05+00:00''\<rparr>"

definition example_last_step :: State where
  "example_last_step = \<lparr>messages = [HumanMessage ''What is the weather?''], is_last_step = True\<rparr>"

definition example_after_reply :: State where
  "example_after_reply =
     \<lparr>messages = [HumanMessage ''What is the weather?'', AIMessage example_reply],
      is_last_step = False\<rparr>"

definition example_after_tool :: State where
  "example_after_tool =
     \<lparr>messages = [HumanMessage ''What is the weather?'', AIMessage example_reply,
                  ToolMessage ''sunny'' ''call_1''],
      is_last_step = False\<rparr>"

definition example_app :: ChatApp where
  "example_app =
     \<lparr>thread_id = ''chat-2026-11-04'', sub_title = ''thread: chat-2026-11-04'',
      mcp_client = False, graph = None, notifications = []\<rparr>"

section \<open>The graph nodes: budget substitution and routing\<close>

lemma route_last_ai:
  "messages s \<noteq> [] \<Longrightarrow> last (messages s) = AIMessage m \<Longrightarrow>
   route_model_output s = (if tool_calls m = [] then Inr ''__end__'' else Inr ''tools'')"
  by (cases "messages s") (simp_all add: route_model_output_def)

lemma example_model_reply: "model_reply example_last_step example_runtime = Inr example_reply"
  by (simp add: model_reply_def example_runtime_def)

lemma example_reply_tool_calls: "tool_calls example_reply \<noteq> []"
  by (simp add: example_reply_def)

lemma example_is_last_step: "is_last_step example_last_step"
  by (simp add: example_last_step_def)

text \<open>
  C1. When \<open>call_model\<close> runs with \<open>is_last_step\<close> true and the model's reply requests at
  least one tool call, the update it returns is a single assistant message that is not the
  reply: it carries the budget-exhausted text and no tool calls. Appended to any history,
  that message makes \<open>route_model_output\<close> take the terminal edge, so the pending tool
  calls of the discarded reply are never executed.
\<close>

theorem call_model_budget_exhausted:
  assumes "is_last_step state"
    and "model_reply state rt = Inr response"
    and "tool_calls response \<noteq> []"
  shows "\<exists>synthetic.
           call_model state rt = Inr [AIMessage synthetic]
         \<and> content synthetic = budget_message
         \<and> tool_calls synthetic = []
         \<and> AIMessage response \<notin> set [AIMessage synthetic]
         \<and> (\<forall>history. route_model_output (state\<lparr>messages := history @ [AIMessage synthetic]\<rparr>)
                        = Inr ''__end__'')"
proof -
  define synthetic where
    "synthetic = \<lparr>msg_id = msg_id response, content = budget_message, tool_calls = []\<rparr>"
  have c: "call_model state rt = Inr [AIMessage synthetic]"
    using assms by (simp add: call_model_def synthetic_def)
  have "tool_calls synthetic = []"
    by (simp add: synthetic_def)
  with assms(3) have "response \<noteq> synthetic"
    by auto
  then have n: "AIMessage response \<notin> set [AIMessage synthetic]"
    by simp
  have r: "route_model_output (state\<lparr>messages := history @ [AIMessage synthetic]\<rparr>) = Inr ''__end__''"
    for history
    by (simp add: route_last_ai synthetic_def)
  show ?thesis
    using c n r by (intro exI [of _ synthetic]) (simp add: synthetic_def)
qed

theorem call_model_budget_exhausted_witness:
  "is_last_step example_last_step
 \<and> model_reply example_last_step example_runtime = Inr example_reply
 \<and> tool_calls example_reply \<noteq> []
 \<and> (\<exists>synthetic.
       call_model example_last_step example_runtime = Inr [AIMessage synthetic]
     \<and> content synthetic = budget_message
     \<and> tool_calls synthetic = []
     \<and> AIMessage example_reply \<notin> set [AIMessage synthetic]
     \<and> (\<forall>history. route_model_output
                      (example_last_step\<lparr>messages := history @ [AIMessage synthetic]\<rparr>)
                    = Inr ''__end__''))"
  using call_model_budget_exhausted
          [OF example_is_last_step example_model_reply example_reply_tool_calls]
        example_is_last_step example_model_reply example_reply_tool_calls
  by blast

text \<open>
  C2. For a state whose last message is an assistant message, \<open>route_model_output\<close>
  returns \<open>"__end__"\<close> exactly when that message has no tool-call request, and \<open>"tools"\<close>
  exactly when it has at least one.
\<close>

theorem route_model_output_edges:
  assumes "messages state \<noteq> []" and "last (messages state) = AIMessage m"
  shows "(route_model_output state = Inr ''__end__'' \<longleftrightarrow> tool_calls m = [])
       \<and> (route_model_output state = Inr ''tools'' \<longleftrightarrow> tool_calls m \<noteq> [])"
  using assms by (simp add: route_last_ai)

theorem route_model_output_edges_witness:
  "messages example_after_reply \<noteq> []
 \<and> last (messages example_after_reply) = AIMessage example_reply
 \<and> route_model_output example_after_reply = Inr ''tools''
 \<and> route_model_output example_after_reply \<noteq> Inr ''__end__''"
proof -
  have h1: "messages example_after_reply \<noteq> []"
    by (simp add: example_after_reply_def)
  have h2: "last (messages example_after_reply) = AIMessage example_reply"
    by (simp add: example_after_reply_def)
  show ?thesis
    using route_model_output_edges [OF h1 h2] h1 h2 example_reply_tool_calls by simp
qed

text \<open>
  C7. For a state with a non-empty message list, \<open>route_model_output\<close> raises a
  \<open>ValueError\<close> naming the class of the last message when that message is not an assistant
  message, and raises nothing when it is one.
\<close>

theorem route_model_output_fails_fast:
  assumes "messages state \<noteq> []"
  shows "(\<not> is_AIMessage (last (messages state)) \<longrightarrow>
            route_model_output state =
              Inl (ValueError (''Expected AIMessage in output edges, but got ''
                               @ type_name (last (messages state)))))
       \<and> (is_AIMessage (last (messages state)) \<longrightarrow> \<not> isl (route_model_output state))"
proof (cases "messages state")
  case Nil
  with assms show ?thesis by simp
next
  case (Cons x xs)
  show ?thesis
    by (cases "last (messages state)") (simp_all add: route_model_output_def Cons)
qed

theorem route_model_output_fails_fast_witness:
  "messages example_after_tool \<noteq> []
 \<and> \<not> is_AIMessage (last (messages example_after_tool))
 \<and> route_model_output example_after_tool
     = Inl (ValueError ''Expected AIMessage in output edges, but got ToolMessage'')
 \<and> messages example_after_reply \<noteq> []
 \<and> is_AIMessage (last (messages example_after_reply))
 \<and> \<not> isl (route_model_output example_after_reply)"
proof -
  have h1: "messages example_after_tool \<noteq> []"
    and l1: "last (messages example_after_tool) = ToolMessage ''sunny'' ''call_1''"
    by (simp_all add: example_after_tool_def)
  have h2: "messages example_after_reply \<noteq> []"
    and l2: "last (messages example_after_reply) = AIMessage example_reply"
    by (simp_all add: example_after_reply_def)
  show ?thesis
    using route_model_output_fails_fast [OF h1] route_model_output_fails_fast [OF h2] h1 h2
    by (simp add: l1 l2)
qed

text \<open>
  C9. Whenever \<open>call_model\<close> substitutes the reply (last step, reply with tool calls), the
  message it returns has the id of the discarded reply and exactly the content "Sorry, I
  could not find an answer to your question in the specified number of steps.".
\<close>

theorem call_model_synthetic_message:
  assumes "is_last_step state"
    and "model_reply state rt = Inr response"
    and "tool_calls response \<noteq> []"
  shows "call_model state rt =
           Inr [AIMessage
                  \<lparr>msg_id = msg_id response,
                   content = ''Sorry, I could not find an answer to your question in the specified number of steps.'',
                   tool_calls = []\<rparr>]"
  using assms by (simp add: call_model_def budget_message_def)

theorem call_model_synthetic_message_witness:
  "is_last_step example_last_step
 \<and> model_reply example_last_step example_runtime = Inr example_reply
 \<and> tool_calls example_reply \<noteq> []
 \<and> call_model example_last_step example_runtime =
     Inr [AIMessage
            \<lparr>msg_id = Some ''run-42'',
             content = ''Sorry, I could not find an answer to your question in the specified number of steps.'',
             tool_calls = []\<rparr>]"
proof -
  have "msg_id example_reply = Some ''run-42''"
    by (simp add: example_reply_def)
  with call_model_synthetic_message
         [OF example_is_last_step example_model_reply example_reply_tool_calls]
  show ?thesis
    using example_is_last_step example_model_reply example_reply_tool_calls by simp
qed

section \<open>Configuration: arguments, environment and defaults\<close>

lemma upper_names:
  "upper ''system_prompt'' = ''SYSTEM_PROMPT''"
  "upper ''model'' = ''MODEL''"
  "upper ''max_search_results'' = ''MAX_SEARCH_RESULTS''"
  by (simp_all add: upper_def upper_char_def)

lemma post_init_getattr:
  "getattr (post_init environ self) f =
     (if getattr self f = f_default f
      then environ_get environ (upper (f_name f)) (f_default f)
      else getattr self f)"
  by (cases f) (simp_all add: post_init_def dataclass_fields_def post_init_field_def)

lemma Context_init_getattr:
  "getattr (Context_init environ kwargs) f =
     (if init_value kwargs f = f_default f
      then environ_get environ (upper (f_name f)) (f_default f)
      else init_value kwargs f)"
  unfolding Context_init_def post_init_getattr by (cases f) simp_all

text \<open>
  C5, as the code has it. For every field of \<open>Context\<close>: a constructor argument that
  differs from the field's default is kept, whatever the environment holds; when no
  argument is passed, or the argument passed equals the default, the field takes the value
  of the environment variable with the uppercased field name if it is set, and the default
  otherwise. (\<open>__post_init__\<close> compares the field with its default and cannot tell an
  argument equal to the default from no argument.)
\<close>

theorem context_override_order:
  "(\<forall>v. kwargs f = Some v \<and> v \<noteq> f_default f \<longrightarrow> getattr (Context_init environ kwargs) f = v)
 \<and> (kwargs f = None \<or> kwargs f = Some (f_default f) \<longrightarrow>
      (case environ (upper (f_name f)) of
         Some s \<Rightarrow> getattr (Context_init environ kwargs) f = PStr s
       | None \<Rightarrow> getattr (Context_init environ kwargs) f = f_default f))"
  by (auto simp: Context_init_getattr init_value_def environ_get_def split: option.splits)

theorem context_override_order_witness:
  "getattr (Context_init [''MODEL'' \<mapsto> ''anthropic/claude-sonnet-4-5'']
                         [model_field \<mapsto> PStr ''anthropic/claude-opus-4-5''])
           model_field
     = PStr ''anthropic/claude-opus-4-5''
 \<and> getattr (Context_init [''MODEL'' \<mapsto> ''anthropic/claude-sonnet-4-5''] Map.empty) model_field
     = PStr ''anthropic/claude-sonnet-4-5''
 \<and> getattr (Context_init Map.empty Map.empty) max_search_results_field = PInt 10"
proof -
  have a: "[model_field \<mapsto> PStr ''anthropic/claude-opus-4-5''] model_field
             = Some (PStr ''anthropic/claude-opus-4-5'')
           \<and> PStr ''anthropic/claude-opus-4-5'' \<noteq> f_default model_field"
    by simp
  have b: "[''MODEL'' \<mapsto> ''anthropic/claude-sonnet-4-5''] (upper (f_name model_field))
             = Some ''anthropic/claude-sonnet-4-5''"
    by (simp add: upper_names)
  have c: "(Map.empty :: string \<rightharpoonup> string) (upper (f_name max_search_results_field)) = None"
    by simp
  have n: "(Map.empty :: field \<rightharpoonup> pyval) g = None \<or> (Map.empty :: field \<rightharpoonup> pyval) g = Some (f_default g)"
    for g by simp
  from context_override_order
         [of "[model_field \<mapsto> PStr ''anthropic/claude-opus-4-5'']" model_field
             "[''MODEL'' \<mapsto> ''anthropic/claude-sonnet-4-5'']"] a
  have 1: "getattr (Context_init [''MODEL'' \<mapsto> ''anthropic/claude-sonnet-4-5'']
                                 [model_field \<mapsto> PStr ''anthropic/claude-opus-4-5''])
                   model_field
             = PStr ''anthropic/claude-opus-4-5''"
    by blast
  from context_override_order
         [of Map.empty model_field "[''MODEL'' \<mapsto> ''anthropic/claude-sonnet-4-5'']"] n b
  have 2: "getattr (Context_init [''MODEL'' \<mapsto> ''anthropic/claude-sonnet-4-5''] Map.empty)
                   model_field
             = PStr ''anthropic/claude-sonnet-4-5''"
    by (simp del: getattr.simps f_name.simps)
  from context_override_order [of Map.empty max_search_results_field Map.empty] n c
  have 3: "getattr (Context_init Map.empty Map.empty) max_search_results_field = PInt 10"
    by (simp del: getattr.simps)
  from 1 2 3 show ?thesis by blast
qed

text \<open>
  C5 as stated fails: with \<open>MODEL\<close> set in the environment, the argument
  \<open>model="anthropic/claude-haiku-4-5-20251001"\<close> (the default, passed explicitly) is
  replaced by the environment's value.
\<close>

theorem explicit_default_counterexample:
  "getattr (Context_init [''MODEL'' \<mapsto> ''anthropic/claude-sonnet-4-5'']
                         [model_field \<mapsto> PStr ''anthropic/claude-haiku-4-5-20251001''])
           model_field
     = PStr ''anthropic/claude-sonnet-4-5''
 \<and> getattr (Context_init [''MODEL'' \<mapsto> ''anthropic/claude-sonnet-4-5'']
                         [model_field \<mapsto> PStr ''anthropic/claude-haiku-4-5-20251001''])
           model_field
     \<noteq> PStr ''anthropic/claude-haiku-4-5-20251001''"
  unfolding Context_init_getattr
  by (simp add: init_value_def environ_get_def upper_names)

text \<open>
  C10. For every field of \<open>Context\<close> whose constructor value equals its declared default,
  when the environment variable with the uppercased field name is set to \<open>s\<close>, the field
  holds the string \<open>s\<close> itself after construction. For \<open>max_search_results\<close> (default the
  integer 10, variable \<open>MAX_SEARCH_RESULTS\<close>) the field then holds a string, not an integer.
\<close>

theorem context_env_value_is_raw_string:
  assumes "init_value kwargs f = f_default f" and "environ (upper (f_name f)) = Some s"
  shows "getattr (Context_init environ kwargs) f = PStr s
       \<and> (f = max_search_results_field \<longrightarrow>
            upper (f_name f) = ''MAX_SEARCH_RESULTS'' \<and> f_default f = PInt 10
          \<and> max_search_results (Context_init environ kwargs) = PStr s
          \<and> (\<forall>n. max_search_results (Context_init environ kwargs) \<noteq> PInt n))"
proof -
  have g: "getattr (Context_init environ kwargs) f = PStr s"
    using assms by (simp add: Context_init_getattr environ_get_def)
  show ?thesis
  proof (cases "f = max_search_results_field")
    case True
    with g have "max_search_results (Context_init environ kwargs) = PStr s" by simp
    with True g show ?thesis by (simp add: upper_names)
  next
    case False
    with g show ?thesis by simp
  qed
qed

theorem context_env_value_is_raw_string_witness:
  "init_value Map.empty max_search_results_field = f_default max_search_results_field
 \<and> [''MAX_SEARCH_RESULTS'' \<mapsto> ''25''] (upper (f_name max_search_results_field)) = Some ''25''
 \<and> max_search_results (Context_init [''MAX_SEARCH_RESULTS'' \<mapsto> ''25''] Map.empty) = PStr ''25''"
proof -
  have h1: "init_value Map.empty max_search_results_field = f_default max_search_results_field"
    by (simp add: init_value_def)
  have h2: "[''MAX_SEARCH_RESULTS'' \<mapsto> ''25''] (upper (f_name max_search_results_field))
              = Some ''25''"
    by (simp add: upper_names)
  from context_env_value_is_raw_string
         [of Map.empty max_search_results_field "[''MAX_SEARCH_RESULTS'' \<mapsto> ''25'']" "''25''",
          OF h1 h2]
  have "max_search_results (Context_init [''MAX_SEARCH_RESULTS'' \<mapsto> ''25''] Map.empty)
          = PStr ''25''"
    by blast
  with h1 h2 show ?thesis by blast
qed

section \<open>The tool list the graph is compiled over\<close>







text \<open>
  The same holds whatever \<open>brain-mcp\<close> offers: the static \<open>web_search\<close> is registered
  last, so the table over the resolved list always resolves its name to the static tool.
\<close>

lemma static_web_search_registered_last:
  "tools_by_name (mcp_tools @ BASE_TOOLS) ''web_search'' = Some web_search"
  by (simp add: tools_by_name_def BASE_TOOLS_def)

section \<open>The thread identifier\<close>

text \<open>
  C4, evaluated. \<open>action_new_thread\<close> at 09:30:05 UTC on 4 November 2026 gives the
  identifier "chat-20261104-093005-a1b2c3"; \<open>_save_thread_id\<close> persists it. Later the
  same UTC day \<open>_daily_thread_id\<close> does not return it but "chat-2026-11-04": the saved
  identifier spells the date without dashes, so it does not start with "chat-2026-11-04".
\<close>

theorem new_thread_not_resumed:
  "thread_id (action_new_thread
      \<lparr>thread_id = ''chat-2026-11-04'', sub_title = ''thread: chat-2026-11-04'',
       mcp_client = False, graph = None, notifications = []\<rparr>
      \<lparr>year = 2026, month = 11, day = 4, hour = 9, minute = 30, second = 5\<rparr>
      ''a1b2c3d4e5f60718293a4b5c6d7e8f90'')
   = ''chat-20261104-093005-a1b2c3''
 \<and> daily_thread_id \<lparr>year = 2026, month = 11, day = 4, hour = 15, minute = 0, second = 0\<rparr>
      (save_thread_id ''chat-20261104-093005-a1b2c3'')
   = ''chat-2026-11-04''"
  by (simp add: action_new_thread_def notify_def strftime_stamp_def strftime_date_def pad2_def
      str_nat.simps digit_char_def daily_thread_id_def save_thread_id_def strip_def isspace_def
      startswith_def Let_def)

lemma digit_char_digit: "digit_char n \<in> set ''0123456789''"
proof -
  have "n mod 10 < length ''0123456789''" by simp
  then show ?thesis unfolding digit_char_def by (rule nth_mem)
qed

lemma str_nat_head: "str_nat n \<noteq> [] \<and> hd (str_nat n) \<in> set ''0123456789''"
proof (induction n rule: str_nat.induct)
  case (1 n)
  show ?case
  proof (cases "n < 10")
    case True
    then show ?thesis using digit_char_digit [of n] by (simp add: str_nat.simps [of n])
  next
    case False
    with 1 show ?thesis by (simp add: str_nat.simps [of n])
  qed
qed

lemma pad2_head: "pad2 n \<noteq> [] \<and> hd (pad2 n) \<noteq> CHR ''-'' \<and> \<not> isspace (hd (pad2 n))"
  using str_nat_head [of n] by (auto simp: pad2_def isspace_def)

lemma strip_prefix: "\<exists>zs. dropWhile P (rev (dropWhile P s)) = zs \<and> (\<exists>ws. dropWhile P s = rev zs @ ws)"
  by (metis rev_rev_ident rev_append takeWhile_dropWhile_id)

lemma startswith_append: "startswith (xs @ ys) (xs @ zs) = startswith ys zs"
  by (simp add: startswith_def)

lemma startswith_strip:
  assumes "startswith (strip s) p"
  shows "startswith (dropWhile isspace s) p"
proof -
  obtain ws where "dropWhile isspace s = strip s @ ws"
    unfolding strip_def using strip_prefix [of isspace s] by auto
  moreover from assms have "take (length p) (strip s) = p" by (simp add: startswith_def)
  then have "length (take (length p) (strip s)) = length p" by simp
  then have "length p \<le> length (strip s)" by simp
  ultimately show ?thesis using assms by (simp add: startswith_def)
qed

text \<open>
  The evaluation above does not depend on the day or the hour: an identifier made by
  \<open>action_new_thread\<close> in the year of \<open>now\<close> is never the result of
  \<open>_daily_thread_id\<close>, since after "chat-" and the year it continues with a digit of the
  month where today's prefix has a dash.
\<close>

lemma action_new_thread_id_not_today:
  assumes "year now' = year now"
  shows "daily_thread_id now (save_thread_id (thread_id (action_new_thread self now' uuid_hex)))
         = ''chat-'' @ strftime_date now"
proof -
  let ?tid = "''chat-'' @ strftime_stamp now' @ ''-'' @ take 6 uuid_hex"
  have t: "thread_id (action_new_thread self now' uuid_hex) = ?tid"
    by (simp add: action_new_thread_def notify_def Let_def)
  have d: "dropWhile isspace ?tid = ?tid"
    by (simp add: isspace_def)
  have "\<not> startswith ?tid (''chat-'' @ strftime_date now)"
  proof
    assume "startswith ?tid (''chat-'' @ strftime_date now)"
    then have "startswith (pad2 (month now') @ pad2 (day now') @ ''-'' @ pad2 (hour now')
                 @ pad2 (minute now') @ pad2 (second now') @ ''-'' @ take 6 uuid_hex)
               (''-'' @ pad2 (month now) @ ''-'' @ pad2 (day now))"
      using assms startswith_append [of "''chat-'' @ str_nat (year now)"]
      by (simp add: strftime_stamp_def strftime_date_def)
    then have "hd (pad2 (month now')) = CHR ''-''"
      using pad2_head [of "month now'"] by (cases "pad2 (month now')") (simp_all add: startswith_def)
    with pad2_head [of "month now'"] show False by simp
  qed
  then have "\<not> startswith (strip ?tid) (''chat-'' @ strftime_date now)"
    using startswith_strip [of ?tid] d by auto
  then show ?thesis
    unfolding t by (simp add: daily_thread_id_def save_thread_id_def Let_def)
qed

section \<open>The reply widget when the stream raises\<close>

lemma set_content_role: "role (set_content w c tcs st) = role w"
  by (simp add: set_content_def Let_def split: option.splits)

lemma set_content_tool_calls:
  "w_tool_calls (set_content w c tcs st) = (case tcs of Some l \<Rightarrow> l | None \<Rightarrow> w_tool_calls w)"
  by (simp add: set_content_def Let_def split: option.splits)

lemma set_content_content: "w_content (set_content w c tcs st) = c"
  by (simp add: set_content_def Let_def split: option.splits)

lemma set_content_renderable:
  "renderable (set_content w c tcs st) =
     build_markup (w\<lparr>w_content := c,
                     w_tool_calls := (case tcs of Some l \<Rightarrow> l | None \<Rightarrow> w_tool_calls w)\<rparr>) st"
  by (simp add: set_content_def Let_def build_markup_def split: option.splits)

text \<open>
  Throughout the loop the reply widget keeps the role "assistant" and shows the tool
  names collected so far.
\<close>

lemma handle_event_widget:
  assumes "role (ai_widget r) = ''assistant''" and "w_tool_calls (ai_widget r) = tool_list r"
  shows "role (ai_widget (handle_event r e)) = ''assistant''
       \<and> w_tool_calls (ai_widget (handle_event r e)) = tool_list (handle_event r e)"
  using assms
  by (cases "(r, e)" rule: handle_event.cases)
     (simp_all add: Let_def set_content_role set_content_tool_calls)

lemma foldl_handle_event_widget:
  "role (ai_widget r) = ''assistant'' \<Longrightarrow> w_tool_calls (ai_widget r) = tool_list r \<Longrightarrow>
   role (ai_widget (foldl handle_event r es)) = ''assistant''
 \<and> w_tool_calls (ai_widget (foldl handle_event r es)) = tool_list (foldl handle_event r es)"
proof (induction es arbitrary: r)
  case Nil
  then show ?case by simp
next
  case (Cons e es)
  from handle_event_widget [OF Cons.prems, of e] Cons.IH [of "handle_event r e"]
  show ?case by simp
qed

lemma stream_events_widget:
  "role (ai_widget (stream_events es)) = ''assistant''"
  "w_tool_calls (ai_widget (stream_events es)) = tool_list (stream_events es)"
proof -
  have "role (ai_widget start_run) = ''assistant''"
    and "w_tool_calls (ai_widget start_run) = tool_list start_run"
    by (simp_all add: start_run_def set_content_role set_content_tool_calls
        MessageWidget_init_def Let_def)
  from foldl_handle_event_widget [OF this, of es]
  show "role (ai_widget (stream_events es)) = ''assistant''"
    and "w_tool_calls (ai_widget (stream_events es)) = tool_list (stream_events es)"
    by (simp_all add: stream_events_def)
qed

lemma error_markup_nonempty: "error_markup exc tb \<noteq> []"
  by (simp add: error_markup_def)

text \<open>
  C6, as the code has it. When the stream raises an instance of \<open>Exception\<close>, the content
  of the reply widget is replaced by the error presentation alone (the text of the
  exception and its traceback): what the widget shows is its header, the names of the
  tools started so far and the error presentation. The text accumulated before the error
  is not part of what is shown.
\<close>

theorem send_message_error_view:
  assumes "isinstance_Exception exc"
  shows "w_content (reply_widget (send_message self c events (Some (exc, tb)))) = error_markup exc tb
       \<and> w_tool_calls (reply_widget (send_message self c events (Some (exc, tb))))
           = tool_list (stream_events events)
       \<and> renderable (reply_widget (send_message self c events (Some (exc, tb))))
           = join [CHR 0x0A]
               ([''[bold #7bc67e]Cerebro[/bold #7bc67e]'', []]
                @ map tool_hint (tool_list (stream_events events))
                @ (if tool_list (stream_events events) \<noteq> [] then [[]] else [])
                @ [error_markup exc tb])
       \<and> propagated (send_message self c events (Some (exc, tb))) = None"
proof -
  have w: "reply_widget (send_message self c events (Some (exc, tb)))
             = set_content (ai_widget (stream_events events)) (error_markup exc tb) None False"
    and p: "propagated (send_message self c events (Some (exc, tb))) = None"
    using assms by (simp_all add: send_message_def Let_def)
  show ?thesis
    unfolding w p
    by (simp add: set_content_content set_content_tool_calls set_content_renderable
        stream_events_widget build_markup_def Let_def header_def error_markup_nonempty)
qed

theorem send_message_error_view_witness:
  "isinstance_Exception (OtherException ''connection reset'')
 \<and> renderable (reply_widget (send_message example_app ''Say hello''
       [on_tool_start (Some ''web_search''), on_chat_model_stream (Some (ContentStr ''Hello''))]
       (Some (OtherException ''connection reset'', ''Traceback''))))
     = join [CHR 0x0A]
         [''[bold #7bc67e]Cerebro[/bold #7bc67e]'', [], tool_hint ''web_search'', [],
          error_markup (OtherException ''connection reset'') ''Traceback'']"
proof -
  have h: "isinstance_Exception (OtherException ''connection reset'')"
    by simp
  have t: "tool_list (stream_events
             [on_tool_start (Some ''web_search''), on_chat_model_stream (Some (ContentStr ''Hello''))])
           = [''web_search'']"
    by (simp add: stream_events_def start_run_def Let_def)
  from send_message_error_view [OF h, of example_app "''Say hello''"
         "[on_tool_start (Some ''web_search''), on_chat_model_stream (Some (ContentStr ''Hello''))]"
         "''Traceback''"]
  have "renderable (reply_widget (send_message example_app ''Say hello''
          [on_tool_start (Some ''web_search''), on_chat_model_stream (Some (ContentStr ''Hello''))]
          (Some (OtherException ''connection reset'', ''Traceback''))))
        = join [CHR 0x0A]
            [''[bold #7bc67e]Cerebro[/bold #7bc67e]'', [], tool_hint ''web_search'', [],
             error_markup (OtherException ''connection reset'') ''Traceback'']"
    unfolding t by simp
  with h show ?thesis by blast
qed

text \<open>
  C6 as stated fails: after the chunk "Hello" has been accumulated, an exception of the
  stream leaves a widget that shows the header and the error presentation, and "Hello"
  occurs nowhere in it.
\<close>

theorem error_hides_text_counterexample:
  "full_text (stream_events [on_chat_model_stream (Some (ContentStr ''Hello''))]) = ''Hello''
 \<and> renderable (reply_widget (send_message
       \<lparr>thread_id = ''chat-2026-11-04'', sub_title = ''thread: chat-2026-11-04'',
        mcp_client = False, graph = Some [web_search], notifications = []\<rparr>
       ''Say hello twice''
       [on_chat_model_stream (Some (ContentStr ''Hello''))]
       (Some (OtherException ''connection reset'', ''Traceback (most recent call last)''))))
   = ''[bold #7bc67e]Cerebro[/bold #7bc67e]'' @ [CHR 0x0A, CHR 0x0A] @
     ''[red]Error:[/red] connection reset'' @ [CHR 0x0A, CHR 0x0A] @
     ''[dim]Traceback (most recent call last)[/dim]''
 \<and> \<not> contains (renderable (reply_widget (send_message
       \<lparr>thread_id = ''chat-2026-11-04'', sub_title = ''thread: chat-2026-11-04'',
        mcp_client = False, graph = Some [web_search], notifications = []\<rparr>
       ''Say hello twice''
       [on_chat_model_stream (Some (ContentStr ''Hello''))]
       (Some (OtherException ''connection reset'', ''Traceback (most recent call last)'')))))
     ''Hello''"
  by (simp add: send_message_def stream_events_def start_run_def set_content_def
      MessageWidget_init_def build_markup_def header_def error_markup_def Let_def
      thinking_def startswith_def)

end
